theory Spec2Isabelle
  imports Main
begin

section \<open>Decimal rendering of Python integers\<close>

text \<open>
  Python's \<^verbatim>\<open>str(i)\<close> on an integer: the decimal digits, most significant
  first, with a leading minus sign for a negative value.
\<close>

definition digit_char :: "nat \<Rightarrow> char" where
  "digit_char d = char_of (48 + d)"

function str_nat :: "nat \<Rightarrow> string" where
  "str_nat n = (if n < 10 then [digit_char n] else str_nat (n div 10) @ [digit_char (n mod 10)])"
  by pat_completeness auto
termination
  by (relation "measure id") auto

declare str_nat.simps [simp del]

definition str_int :: "int \<Rightarrow> string" where
  "str_int i = (if i < 0 then CHR ''-'' # str_nat (nat (- i)) else str_nat (nat i))"

text \<open>
  Reading a digit string back, to state what the rendering means: its characters are
  decimal digits and their positional value is the number rendered.
\<close>

definition is_digit :: "char \<Rightarrow> bool" where
  "is_digit c = (48 \<le> (of_char c :: nat) \<and> (of_char c :: nat) \<le> 57)"

definition digit_value :: "char \<Rightarrow> nat" where
  "digit_value c = of_char c - 48"

definition dec_value :: "string \<Rightarrow> nat" where
  "dec_value s = foldl (\<lambda>a c. 10 * a + digit_value c) 0 s"

section \<open>opentensor/config.py\<close>

text \<open>
  Exceptions are values. \<open>AttributeError\<close> is what Python raises when an
  attribute that was never assigned is read; \<open>Raised name\<close> is an exception
  raised inside one of the external calls (\<^verbatim>\<open>requests.get\<close>,
  \<^verbatim>\<open>opentensor.Identity\<close>), named by its class.
\<close>

datatype exn = AttributeError | Raised string

text \<open>
  The parsed command line handed to \<^verbatim>\<open>Config\<close>: one field per argument
  registered by \<^verbatim>\<open>Config.add_args\<close>. Every argument but
  \<^verbatim>\<open>metagraph_size\<close> defaults to \<^verbatim>\<open>None\<close>.
\<close>

record hparams =
  chain_endpoint :: "string option"
  axon_port :: "string option"
  metagraph_port :: "string option"
  metagraph_size :: int
  bootstrap :: "string option"
  identity :: "string option"
  remote_ip :: "string option"

text \<open>The object returned by \<^verbatim>\<open>opentensor.Identity()\<close>, read through its public key.\<close>

record Identity =
  public_key :: string

text \<open>
  What the module takes from outside: the successive results of
  \<^verbatim>\<open>random.randint(6000, 60000)\<close>, the outcome of
  \<^verbatim>\<open>requests.get('https://api.ipify.org').text\<close> and the outcome of
  \<^verbatim>\<open>opentensor.Identity()\<close>. The two calls that leave the process may raise.
\<close>

record world =
  randint :: "nat \<Rightarrow> int"
  requests_get :: "exn + string"
  Identity_new :: "exn + Identity"

text \<open>
  A \<^verbatim>\<open>Config\<close> instance under construction. An attribute is \<open>None\<close> until
  it is assigned; the class declares no attribute of its own, so reading an
  unassigned one raises \<open>AttributeError\<close>.
\<close>

record Config =
  self_hparams :: "hparams option"
  self_axon_port :: "string option"
  self_metagraph_port :: "string option"
  self_metagraph_size :: "int option"
  self_bootstrap :: "string option"
  self_identity :: "Identity option"
  self_remote_ip :: "string option"

definition new_object :: Config where
  "new_object = \<lparr>self_hparams = None, self_axon_port = None, self_metagraph_port = None,
     self_metagraph_size = None, self_bootstrap = None, self_identity = None,
     self_remote_ip = None\<rparr>"

definition getattr :: "'a option \<Rightarrow> exn + 'a" where
  "getattr a = (case a of None \<Rightarrow> Inl AttributeError | Some v \<Rightarrow> Inr v)"

text \<open>
  \<^verbatim>\<open>Config._load_defaults\<close>, block by block in the source's order. The
  counter \<open>k\<close> is the number of \<^verbatim>\<open>random.randint\<close> calls made so far.
\<close>

definition load_axon_port :: "world \<Rightarrow> hparams \<Rightarrow> Config \<times> nat \<Rightarrow> Config \<times> nat" where
  "load_axon_port w hp sk = (case sk of (self, k) \<Rightarrow>
     (case axon_port hp of
        None \<Rightarrow> (self\<lparr>self_axon_port := Some (str_int (randint w k))\<rparr>, Suc k)
      | Some p \<Rightarrow> (self\<lparr>self_axon_port := Some p\<rparr>, k)))"

definition load_metagraph_port :: "world \<Rightarrow> hparams \<Rightarrow> Config \<times> nat \<Rightarrow> Config \<times> nat" where
  "load_metagraph_port w hp sk = (case sk of (self, k) \<Rightarrow>
     (case metagraph_port hp of
        None \<Rightarrow> (self\<lparr>self_metagraph_port := Some (str_int (randint w k))\<rparr>, Suc k)
      | Some p \<Rightarrow> (self\<lparr>self_metagraph_port := Some p\<rparr>, k)))"

definition load_bootstrap :: "hparams \<Rightarrow> Config \<Rightarrow> Config" where
  "load_bootstrap hp self =
     (case bootstrap hp of
        None \<Rightarrow> self\<lparr>self_bootstrap := Some ''165.227.216.95:8080''\<rparr>
      | Some b \<Rightarrow> self\<lparr>self_bootstrap := Some b\<rparr>)"

definition load_identity :: "world \<Rightarrow> hparams \<Rightarrow> Config \<Rightarrow> exn + Config" where
  "load_identity w hp self =
     (case identity hp of
        None \<Rightarrow> (case Identity_new w of
                   Inl e \<Rightarrow> Inl e
                 | Inr i \<Rightarrow> Inr (self\<lparr>self_identity := Some i\<rparr>))
      | Some _ \<Rightarrow> Inr self)"

definition load_remote_ip :: "world \<Rightarrow> hparams \<Rightarrow> Config \<Rightarrow> exn + Config" where
  "load_remote_ip w hp self =
     (case remote_ip hp of
        None \<Rightarrow> (case requests_get w of
                   Inl e \<Rightarrow> Inl e
                 | Inr t \<Rightarrow> Inr (self\<lparr>self_remote_ip := Some t\<rparr>))
      | Some r \<Rightarrow> Inr (self\<lparr>self_remote_ip := Some r\<rparr>))"

definition load_defaults :: "world \<Rightarrow> Config \<Rightarrow> exn + Config" where
  "load_defaults w self =
     (case getattr (self_hparams self) of
        Inl e \<Rightarrow> Inl e
      | Inr hp \<Rightarrow>
          (let self1 = fst (load_metagraph_port w hp (load_axon_port w hp (self, 0)));
               self2 = self1\<lparr>self_metagraph_size := Some (metagraph_size hp)\<rparr>;
               self3 = load_bootstrap hp self2
           in case load_identity w hp self3 of
                Inl e \<Rightarrow> Inl e
              | Inr self4 \<Rightarrow> load_remote_ip w hp self4))"

text \<open>
  \<^verbatim>\<open>Config.toString\<close>: the arguments of \<^verbatim>\<open>logger.info\<close> are
  evaluated left to right, \<^verbatim>\<open>self.identity.public_key()\<close> first; the value
  is the line that is logged.
\<close>

definition nl :: string where
  "nl = [CHR 0x0A]"

definition toString :: "Config \<Rightarrow> exn + string" where
  "toString self =
     (case getattr (self_identity self) of Inl e \<Rightarrow> Inl e | Inr i \<Rightarrow>
      case getattr (self_axon_port self) of Inl e \<Rightarrow> Inl e | Inr ap \<Rightarrow>
      case getattr (self_metagraph_port self) of Inl e \<Rightarrow> Inl e | Inr mp \<Rightarrow>
      case getattr (self_metagraph_size self) of Inl e \<Rightarrow> Inl e | Inr ms \<Rightarrow>
      case getattr (self_bootstrap self) of Inl e \<Rightarrow> Inl e | Inr b \<Rightarrow>
      case getattr (self_remote_ip self) of Inl e \<Rightarrow> Inl e | Inr r \<Rightarrow>
        Inr (nl @ '' Neuron key: '' @ public_key i @ '' '' @ nl @
             '' Axon port: '' @ ap @ '' '' @ nl @
             '' Metagraph port: '' @ mp @ '' '' @ nl @
             '' Metagraph Size: '' @ str_int ms @ '' '' @ nl @
             '' bootpeer: '' @ b @ '' '' @ nl @
             '' remote_ip: '' @ r @ '' '' @ nl))"

text \<open>
  \<^verbatim>\<open>Config.__init__\<close>: store the arguments, load the defaults, log the
  summary. The value is the constructed object with the logged line.
\<close>

definition Config_init :: "world \<Rightarrow> hparams \<Rightarrow> exn + (Config \<times> string)" where
  "Config_init w hp =
     (case load_defaults w (new_object\<lparr>self_hparams := Some hp\<rparr>) of
        Inl e \<Rightarrow> Inl e
      | Inr self \<Rightarrow> (case toString self of Inl e \<Rightarrow> Inl e | Inr line \<Rightarrow> Inr (self, line)))"

section \<open>Shape casting\<close>

text \<open>
  Modelled from the spec: the error kinds of \<^verbatim>\<open>bittensor/tensor.py\<close>, a
  module that is not among the sources (only \<^verbatim>\<open>tests/pytest/test_tensor.py\<close>,
  which imports it, is). The kinds are those of the specification's error taxonomy.
\<close>

datatype tensor_error =
  InvalidDType | InvalidShape | TypeMismatch | ShapeMismatch | DecodeFailure | StreamAborted

text \<open>
  Modelled from the spec: the Python values \<^verbatim>\<open>cast_shape\<close> is handed, by
  kind. The specification tells apart an absent value, a string, an ordered sequence
  (a list) with its elements, and every other kind of value, of which it names mappings,
  tuples and arbitrary objects; the tests add a bare integer.
\<close>

datatype pyval =
    PNone
  | PInt int
  | PStr string
  | PList "pyval list"
  | PTuple "pyval list"
  | PDict "(pyval \<times> pyval) list"
  | PObject nat

text \<open>
  Modelled from the spec: the bracketed textual form of an integer sequence,
  \<^verbatim>\<open>"[d0, d1, ..., dn]"\<close> with decimal integers separated by a comma and a
  space, which is Python's \<^verbatim>\<open>str\<close> of a list of integers.
\<close>

fun join :: "string \<Rightarrow> string list \<Rightarrow> string" where
  "join sep [] = []"
| "join sep [s] = s"
| "join sep (s # t # ts) = s @ sep @ join sep (t # ts)"

definition str_int_list :: "int list \<Rightarrow> string" where
  "str_int_list s = ''['' @ join '', '' (map str_int s) @ '']''"

text \<open>
  Modelled from the spec: the check that every element of the sequence is integral.
  The value is the sequence's integers, or \<open>None\<close> when some element is not one.
\<close>

fun ints_of :: "pyval list \<Rightarrow> int list option" where
  "ints_of [] = Some []"
| "ints_of (PInt i # vs) = (case ints_of vs of None \<Rightarrow> None | Some is \<Rightarrow> Some (i # is))"
| "ints_of (_ # vs) = None"

text \<open>
  Modelled from the spec: \<^verbatim>\<open>cast_shape\<close> of
  \<^verbatim>\<open>bittensor/tensor.py\<close>, which is not among the sources. The cases are
  those of the specification's contract, in its order: an absent input gives
  \<^verbatim>\<open>"None"\<close>; an ordered integer sequence gives its bracketed textual form,
  and fails with \<open>InvalidShape\<close> if an element is not integral; a string is returned
  unchanged; any other kind of value fails with \<open>TypeMismatch\<close>.
\<close>

definition cast_shape :: "pyval \<Rightarrow> tensor_error + string" where
  "cast_shape input =
     (case input of
        PNone \<Rightarrow> Inr ''None''
      | PList vs \<Rightarrow>
          (case ints_of vs of None \<Rightarrow> Inl InvalidShape | Some s \<Rightarrow> Inr (str_int_list s))
      | PStr s \<Rightarrow> Inr s
      | _ \<Rightarrow> Inl TypeMismatch)"

section \<open>Properties of the decimal rendering\<close>

lemma digit_char_numerals:
  "digit_char 0 = CHR ''0''" "digit_char 1 = CHR ''1''" "digit_char 2 = CHR ''2''"
  "digit_char 3 = CHR ''3''" "digit_char 4 = CHR ''4''" "digit_char 5 = CHR ''5''"
  "digit_char 6 = CHR ''6''" "digit_char 7 = CHR ''7''" "digit_char 8 = CHR ''8''"
  "digit_char 9 = CHR ''9''" "digit_char (Suc 0) = CHR ''1''"
  by code_simp+

lemma digit_value_digit_char: "d < 10 \<Longrightarrow> digit_value (digit_char d) = d"
  by (simp add: digit_value_def digit_char_def)

lemma is_digit_digit_char: "d < 10 \<Longrightarrow> is_digit (digit_char d)"
  by (simp add: is_digit_def digit_char_def)

lemma dec_value_snoc: "dec_value (s @ [c]) = 10 * dec_value s + digit_value c"
  by (simp add: dec_value_def)

text \<open>The digits of \<open>str_nat n\<close> read back as \<open>n\<close>.\<close>

lemma dec_value_str_nat: "dec_value (str_nat n) = n"
proof (induction n rule: str_nat.induct)
  case (1 n)
  show ?case
  proof (cases "n < 10")
    case True
    then show ?thesis
      by (subst str_nat.simps) (simp add: dec_value_def digit_value_digit_char)
  next
    case False
    with 1 have "dec_value (str_nat (n div 10)) = n div 10" by simp
    with False show ?thesis
      by (subst str_nat.simps) (simp add: dec_value_snoc digit_value_digit_char)
  qed
qed

lemma str_nat_digits: "list_all is_digit (str_nat n)"
proof (induction n rule: str_nat.induct)
  case (1 n)
  show ?case
  proof (cases "n < 10")
    case True
    then show ?thesis
      by (subst str_nat.simps) (simp add: is_digit_digit_char)
  next
    case False
    with 1 have "list_all is_digit (str_nat (n div 10))" by simp
    with False show ?thesis
      by (subst str_nat.simps) (simp add: is_digit_digit_char)
  qed
qed

lemma str_int_examples:
  "str_int 0 = ''0''" "str_int 6000 = ''6000''" "str_int (- 100) = ''-100''"
  "str_int 2147483647 = ''2147483647''"
  by (simp_all add: str_int_def str_nat.simps digit_char_numerals)

section \<open>Properties of the configuration loader\<close>

lemma load_ports_identity:
  "self_identity (fst (load_metagraph_port w hp (load_axon_port w hp (self, k)))) = self_identity self"
  by (simp add: load_metagraph_port_def load_axon_port_def split: option.splits)

lemma load_bootstrap_identity: "self_identity (load_bootstrap hp self) = self_identity self"
  by (simp add: load_bootstrap_def split: option.splits)

lemma load_remote_ip_identity:
  "load_remote_ip w hp self = Inr self' \<Longrightarrow> self_identity self' = self_identity self"
  by (auto simp: load_remote_ip_def split: option.splits sum.splits)

lemma load_defaults_identity_given:
  assumes "identity hp \<noteq> None"
    and "load_defaults w (new_object\<lparr>self_hparams := Some hp\<rparr>) = Inr self"
  shows "self_identity self = None"
proof -
  from assms(1) obtain s where s: "identity hp = Some s" by auto
  let ?s3 = "load_bootstrap hp
      ((fst (load_metagraph_port w hp (load_axon_port w hp (new_object\<lparr>self_hparams := Some hp\<rparr>, 0))))
         \<lparr>self_metagraph_size := Some (metagraph_size hp)\<rparr>)"
  have "self_identity ?s3 = None"
    by (simp add: load_bootstrap_identity load_ports_identity new_object_def)
  moreover from assms(2) s have "load_remote_ip w hp ?s3 = Inr self"
    by (simp add: load_defaults_def getattr_def load_identity_def Let_def)
  ultimately show ?thesis
    using load_remote_ip_identity by fastforce
qed

lemma load_defaults_identity_absent:
  assumes "identity hp = None"
    and "load_defaults w (new_object\<lparr>self_hparams := Some hp\<rparr>) = Inr self"
  shows "\<exists>i. Identity_new w = Inr i \<and> self_identity self = Some i"
  using assms
  by (auto simp: load_defaults_def getattr_def load_identity_def Let_def
      split: sum.splits dest!: load_remote_ip_identity)

lemma load_defaults_raises_iff:
  assumes "identity hp \<noteq> None"
  shows "load_defaults w (new_object\<lparr>self_hparams := Some hp\<rparr>) = Inl e
     \<longleftrightarrow> remote_ip hp = None \<and> requests_get w = Inl e"
  using assms
  by (auto simp: load_defaults_def getattr_def load_identity_def load_remote_ip_def Let_def
      split: sum.splits option.splits)

text \<open>
  Claim C10, as amended. When the supplied \<^verbatim>\<open>identity\<close> is not
  \<^verbatim>\<open>None\<close>, \<^verbatim>\<open>Config.__init__\<close> always raises: if
  \<^verbatim>\<open>remote_ip\<close> is absent and the \<^verbatim>\<open>requests.get\<close> lookup raises,
  that exception propagates out of \<^verbatim>\<open>_load_defaults\<close>; in every other case
  \<^verbatim>\<open>_load_defaults\<close> returns without having assigned
  \<^verbatim>\<open>self.identity\<close> and \<^verbatim>\<open>toString\<close> raises
  \<open>AttributeError\<close>. Hence whenever construction succeeds the supplied identity was
  absent, and the object's identity is the one \<^verbatim>\<open>opentensor.Identity()\<close>
  returned.
\<close>

theorem Config_init_identity:
  "(identity hp \<noteq> None \<longrightarrow>
      Config_init w hp =
        (case remote_ip hp of
           None \<Rightarrow> (case requests_get w of Inl e \<Rightarrow> Inl e | Inr t \<Rightarrow> Inl AttributeError)
         | Some r \<Rightarrow> Inl AttributeError))
   \<and> (\<forall>c line. Config_init w hp = Inr (c, line) \<longrightarrow>
         identity hp = None \<and> (\<exists>i. Identity_new w = Inr i \<and> self_identity c = Some i))"
proof (intro conjI impI allI)
  assume given: "identity hp \<noteq> None"
  show "Config_init w hp =
        (case remote_ip hp of
           None \<Rightarrow> (case requests_get w of Inl e \<Rightarrow> Inl e | Inr t \<Rightarrow> Inl AttributeError)
         | Some r \<Rightarrow> Inl AttributeError)"
  proof (cases "load_defaults w (new_object\<lparr>self_hparams := Some hp\<rparr>)")
    case (Inl e)
    with given have "remote_ip hp = None \<and> requests_get w = Inl e"
      by (simp add: load_defaults_raises_iff)
    with Inl show ?thesis by (simp add: Config_init_def)
  next
    case (Inr self)
    with given have "self_identity self = None"
      by (rule load_defaults_identity_given)
    then have ts: "toString self = Inl AttributeError"
      by (simp add: toString_def getattr_def)
    from given Inr have "\<not> (\<exists>e. remote_ip hp = None \<and> requests_get w = Inl e)"
      using load_defaults_raises_iff [of hp w] by auto
    with Inr ts show ?thesis
      by (auto simp: Config_init_def split: option.splits sum.splits)
  qed
next
  fix c line
  assume ok: "Config_init w hp = Inr (c, line)"
  then have ld: "load_defaults w (new_object\<lparr>self_hparams := Some hp\<rparr>) = Inr c"
    and ts: "toString c = Inr line"
    by (auto simp: Config_init_def split: sum.splits)
  from ts have assigned: "self_identity c \<noteq> None"
    by (auto simp: toString_def getattr_def split: option.splits)
  show "identity hp = None"
  proof (rule ccontr)
    assume "identity hp \<noteq> None"
    from this ld have "self_identity c = None" by (rule load_defaults_identity_given)
    with assigned show False by simp
  qed
  from this ld show "\<exists>i. Identity_new w = Inr i \<and> self_identity c = Some i"
    by (rule load_defaults_identity_absent)
qed

text \<open>
  The theorem at two command lines: one that names an identity and a remote address
  (construction raises \<open>AttributeError\<close>), and one that names neither (construction
  succeeds with the fresh identity).
\<close>

theorem Config_init_identity_witness:
  "Config_init
     \<lparr>randint = (\<lambda>k. 6000 + int k), requests_get = Inr ''10.0.0.1'',
      Identity_new = Inr \<lparr>public_key = ''pk''\<rparr>\<rparr>
     \<lparr>chain_endpoint = None, axon_port = None, metagraph_port = Some ''8121'',
      metagraph_size = 100000, bootstrap = None, identity = Some ''key'',
      remote_ip = Some ''10.0.0.2''\<rparr>
   = Inl AttributeError
   \<and> (case Config_init
          \<lparr>randint = (\<lambda>k. 6000 + int k), requests_get = Inr ''10.0.0.1'',
           Identity_new = Inr \<lparr>public_key = ''pk''\<rparr>\<rparr>
          \<lparr>chain_endpoint = None, axon_port = None, metagraph_port = Some ''8121'',
           metagraph_size = 100000, bootstrap = None, identity = None, remote_ip = None\<rparr>
       of Inl e \<Rightarrow> False
        | Inr (c, line) \<Rightarrow> self_identity c = Some \<lparr>public_key = ''pk''\<rparr>)"
proof -
  let ?w = "\<lparr>randint = (\<lambda>k. 6000 + int k), requests_get = Inr ''10.0.0.1'',
      Identity_new = Inr \<lparr>public_key = ''pk''\<rparr>\<rparr>"
  let ?given = "\<lparr>chain_endpoint = None, axon_port = None, metagraph_port = Some ''8121'',
      metagraph_size = 100000, bootstrap = None, identity = Some ''key'',
      remote_ip = Some ''10.0.0.2''\<rparr>"
  let ?absent = "\<lparr>chain_endpoint = None, axon_port = None, metagraph_port = Some ''8121'',
      metagraph_size = 100000, bootstrap = None, identity = None, remote_ip = None\<rparr>"
  have "Config_init ?w ?given = Inl AttributeError"
    using Config_init_identity [of ?given ?w] by simp
  moreover have "\<exists>c line. Config_init ?w ?absent = Inr (c, line)"
    by (simp add: Config_init_def load_defaults_def getattr_def new_object_def
        load_axon_port_def load_metagraph_port_def load_bootstrap_def
        load_identity_def load_remote_ip_def toString_def Let_def)
  then obtain c line where ok: "Config_init ?w ?absent = Inr (c, line)" by blast
  then have "self_identity c = Some \<lparr>public_key = ''pk''\<rparr>"
    using Config_init_identity [of ?absent ?w] by simp
  with ok have "case Config_init ?w ?absent of Inl e \<Rightarrow> False
        | Inr (c, line) \<Rightarrow> self_identity c = Some \<lparr>public_key = ''pk''\<rparr>"
    by simp
  ultimately show ?thesis by blast
qed

text \<open>
  Claim C10 as it was stated fails when the network lookup does: with an identity
  supplied, no remote address and \<^verbatim>\<open>requests.get\<close> raising, the exception that
  leaves \<^verbatim>\<open>Config.__init__\<close> is the one of the request, not
  \<open>AttributeError\<close>.
\<close>

theorem Config_init_request_failure_counterexample:
  "identity \<lparr>chain_endpoint = None, axon_port = None, metagraph_port = None,
       metagraph_size = 100000, bootstrap = None, identity = Some ''key'', remote_ip = None\<rparr> \<noteq> None
   \<and> Config_init
       \<lparr>randint = (\<lambda>k. 6000), requests_get = Inl (Raised ''ConnectionError''),
        Identity_new = Inr \<lparr>public_key = ''pk''\<rparr>\<rparr>
       \<lparr>chain_endpoint = None, axon_port = None, metagraph_port = None,
        metagraph_size = 100000, bootstrap = None, identity = Some ''key'', remote_ip = None\<rparr>
     \<noteq> Inl AttributeError"
  by (simp add: Config_init_def load_defaults_def getattr_def new_object_def load_identity_def
      load_remote_ip_def Let_def)

section \<open>Properties of shape casting\<close>

lemma ints_of_map_PInt: "ints_of (map PInt s) = Some s"
  by (induction s) simp_all

lemma ints_of_non_int:
  "\<exists>x\<in>set vs. \<forall>i. x \<noteq> PInt i \<Longrightarrow> ints_of vs = None"
proof (induction vs rule: ints_of.induct)
  case 1
  then show ?case by simp
next
  case (2 i vs)
  then show ?case by (auto split: option.splits)
qed simp_all

text \<open>The inputs the tests hand to \<^verbatim>\<open>cast_shape\<close>, with the results they expect.\<close>

lemma cast_shape_examples:
  "cast_shape (PList [PInt 10, PInt 20]) = Inr ''[10, 20]''"
  "cast_shape (PList [PInt 100, PInt (- 100)]) = Inr ''[100, -100]''"
  "cast_shape (PList [PInt 2147483647]) = Inr ''[2147483647]''"
  "cast_shape (PList [PInt 0]) = Inr ''[0]''"
  "cast_shape (PList []) = Inr ''[]''"
  "cast_shape (PList [PStr ''1'', PStr ''2'', PStr ''3'']) = Inl InvalidShape"
  "cast_shape (PDict []) = Inl TypeMismatch"
  "cast_shape (PInt 123) = Inl TypeMismatch"
  by (simp_all add: cast_shape_def str_int_list_def str_int_def str_nat.simps
      digit_char_numerals)

text \<open>
  Claim C6. On an input that is not a string, \<^verbatim>\<open>cast_shape\<close> gives: for an
  absent input the string \<^verbatim>\<open>"None"\<close>; for a sequence of integers \<open>s\<close>,
  whatever their sign or size, the opening bracket, the decimal renderings of the
  integers separated by a comma and a space, and the closing bracket; for a sequence
  with an element that is not an integer the failure \<open>InvalidShape\<close>; and for any
  value that is neither absent, a string nor a sequence the failure \<open>TypeMismatch\<close>.
\<close>

theorem cast_shape_non_string:
  "cast_shape PNone = Inr ''None''
   \<and> cast_shape (PList (map PInt s)) = Inr (''['' @ join '', '' (map str_int s) @ '']'')
   \<and> ((\<exists>x\<in>set vs. \<forall>i. x \<noteq> PInt i) \<longrightarrow> cast_shape (PList vs) = Inl InvalidShape)
   \<and> (v \<noteq> PNone \<and> (\<forall>t. v \<noteq> PStr t) \<and> (\<forall>xs. v \<noteq> PList xs)
        \<longrightarrow> cast_shape v = Inl TypeMismatch)"
proof (intro conjI impI)
  show "cast_shape PNone = Inr ''None''"
    by (simp add: cast_shape_def)
  show "cast_shape (PList (map PInt s)) = Inr (''['' @ join '', '' (map str_int s) @ '']'')"
    by (simp add: cast_shape_def ints_of_map_PInt str_int_list_def)
  show "cast_shape (PList vs) = Inl InvalidShape" if "\<exists>x\<in>set vs. \<forall>i. x \<noteq> PInt i"
    using ints_of_non_int [OF that] by (simp add: cast_shape_def)
  show "cast_shape v = Inl TypeMismatch"
    if "v \<noteq> PNone \<and> (\<forall>t. v \<noteq> PStr t) \<and> (\<forall>xs. v \<noteq> PList xs)"
    using that by (cases v) (simp_all add: cast_shape_def)
qed

text \<open>
  The theorem at the sequence \<^verbatim>\<open>[1, 2, 3]\<close>, at the sequence
  \<^verbatim>\<open>[1, "two", 3]\<close> and at the tuple \<^verbatim>\<open>(1, 2, 3)\<close>.
\<close>

theorem cast_shape_non_string_witness:
  "cast_shape (PList [PInt 1, PInt 2, PInt 3]) = Inr ''[1, 2, 3]''
   \<and> cast_shape (PList [PInt 1, PStr ''two'', PInt 3]) = Inl InvalidShape
   \<and> cast_shape (PTuple [PInt 1, PInt 2, PInt 3]) = Inl TypeMismatch"
proof -
  have digits: "str_int 1 = ''1''" "str_int 2 = ''2''" "str_int 3 = ''3''"
    by (simp_all add: str_int_def str_nat.simps digit_char_numerals)
  have nonint: "\<exists>x\<in>set [PInt 1, PStr ''two'', PInt 3]. \<forall>i. x \<noteq> PInt i"
    by simp
  have other: "PTuple [PInt 1, PInt 2, PInt 3] \<noteq> PNone
      \<and> (\<forall>t. PTuple [PInt 1, PInt 2, PInt 3] \<noteq> PStr t)
      \<and> (\<forall>xs. PTuple [PInt 1, PInt 2, PInt 3] \<noteq> PList xs)"
    by simp
  from cast_shape_non_string [of "[1, 2, 3]" "[PInt 1, PStr ''two'', PInt 3]"
      "PTuple [PInt 1, PInt 2, PInt 3]"]
  have "cast_shape (PList (map PInt [1, 2, 3]))
      = Inr (''['' @ join '', '' (map str_int [1, 2, 3]) @ '']'')"
    and "cast_shape (PList [PInt 1, PStr ''two'', PInt 3]) = Inl InvalidShape"
    and "cast_shape (PTuple [PInt 1, PInt 2, PInt 3]) = Inl TypeMismatch"
    using nonint other by blast+
  then show ?thesis
    by (simp add: digits)
qed

end
